theory Spec2Isabelle
  imports Main "HOL-Library.Word" "HOL-Library.Signed_Division"
begin

section \<open>Data model (models/models.go)\<close>

text \<open>
  The Go structs \<^verbatim>\<open>Account\<close> and \<^verbatim>\<open>Transaction\<close> become records. Go's
  \<^verbatim>\<open>uint\<close> is a 64-bit word. The monetary fields are \<^verbatim>\<open>float64\<close> in the source;
  here they have a type parameter \<open>'m\<close>, and the handler uses exactly the operations the
  source uses on them (\<open>+\<close>, \<open>-\<close>, \<open><\<close>, \<open>\<le>\<close> and the constant \<open>0\<close>). Definitions
  assume no law about these operations; each theorem names in its sort constraint the
  laws it needs (none, a preorder, or a preorder with the law \<open>a - a = 0\<close> of a group).
  Rounding, infinities and NaN of binary floating point are outside this development.

  The bookkeeping columns that gorm maintains (\<^verbatim>\<open>CreatedAt\<close>, \<^verbatim>\<open>UpdatedAt\<close>,
  \<^verbatim>\<open>DeletedAt\<close>) and the association fields (\<^verbatim>\<open>Customer\<close>, \<^verbatim>\<open>Transactions\<close>,
  \<^verbatim>\<open>Account\<close>) are left out: the handler never reads or writes them itself.
\<close>

type_synonym uint = "64 word"

record 'm Account =
  ID :: uint
  AccountNumber :: string
  CustomerID :: uint
  AccountType :: string
  Balance :: 'm
  Currency :: string
  Status :: string

text \<open>\<open>TxID\<close> is the primary key \<^verbatim>\<open>Transaction.ID\<close> (JSON \<^verbatim>\<open>id\<close>); \<open>TransactionID\<close> is
  the string identifier (JSON \<^verbatim>\<open>transaction_id\<close>).\<close>

record 'm Transaction =
  TxID :: uint
  TransactionID :: string
  AccountID :: uint
  TransactionType :: string
  Amount :: 'm
  Description :: string
  Reference :: string
  BalanceBefore :: 'm
  BalanceAfter :: 'm

section \<open>The store (gorm over SQLite)\<close>

text \<open>
  The database is the two tables the handler touches, each a list of rows in insertion
  order. The errors of gorm that the handler tells apart are \<^verbatim>\<open>gorm.ErrRecordNotFound\<close>
  and \<^verbatim>\<open>gorm.ErrInvalidData\<close>; every other error a call of the store may return
  (a constraint violation, a busy or broken connection) is \<open>ErrStorage\<close>.
\<close>

record 'm DB =
  accounts :: "'m Account list"
  transactions :: "'m Transaction list"

datatype gorm_error = ErrRecordNotFound | ErrInvalidData | ErrStorage

text \<open>
  What the store does is not decided by the handler: whether \<^verbatim>\<open>Begin\<close>, \<^verbatim>\<open>First\<close>,
  \<^verbatim>\<open>Save\<close>, \<^verbatim>\<open>Create\<close> or \<^verbatim>\<open>Commit\<close> fails, and which primary key an inserted row
  gets when it has none. A value of \<open>store\<close> fixes these choices for one request.
\<close>

record store =
  begin_err :: bool
  first_err :: bool
  save_err :: bool
  create_err :: bool
  commit_err :: bool
  next_id :: uint

text \<open>\<^verbatim>\<open>tx.First(&account, id)\<close>: the row whose primary key is \<open>k\<close>.\<close>

definition tx_First :: "store \<Rightarrow> 'm DB \<Rightarrow> uint \<Rightarrow> gorm_error + 'm Account" where
  "tx_First s tx k =
     (if first_err s then Inl ErrStorage
      else case find (\<lambda>r. ID r = k) (accounts tx) of
             None \<Rightarrow> Inl ErrRecordNotFound
           | Some a \<Rightarrow> Inr a)"

text \<open>\<^verbatim>\<open>tx.Save(&account)\<close> on a row that was fetched: all columns of the row with the
  primary key of \<open>a\<close> are overwritten.\<close>

definition tx_Save :: "store \<Rightarrow> 'm DB \<Rightarrow> 'm Account \<Rightarrow> gorm_error + 'm DB" where
  "tx_Save s tx a =
     (if save_err s then Inl ErrStorage
      else Inr (tx\<lparr>accounts := map (\<lambda>r. if ID r = ID a then a else r) (accounts tx)\<rparr>))"

text \<open>\<^verbatim>\<open>tx.Create(&transaction)\<close>: the row is appended; a zero primary key is filled in
  by the store, and the struct passed in is updated with it.\<close>

definition tx_Create ::
  "store \<Rightarrow> 'm DB \<Rightarrow> 'm Transaction \<Rightarrow> gorm_error + ('m Transaction \<times> 'm DB)" where
  "tx_Create s tx t =
     (if create_err s then Inl ErrStorage
      else let row = t\<lparr>TxID := (if TxID t = 0 then next_id s else TxID t)\<rparr>
           in Inr (row, tx\<lparr>transactions := transactions tx @ [row]\<rparr>))"

text \<open>
  \<^verbatim>\<open>db.Transaction(fc)\<close>: \<open>fc\<close> runs on the transaction handle; it works on the
  variables it captured (\<open>v\<close>) and on the tables. When \<^verbatim>\<open>Begin\<close> fails \<open>fc\<close> is not run.
  When \<open>fc\<close> returns an error, or \<^verbatim>\<open>Commit\<close> fails, the tables are rolled back to
  what they were; the captured variables stay as \<open>fc\<close> left them.
\<close>

definition db_Transaction ::
  "store \<Rightarrow> ('v \<times> 'm DB \<Rightarrow> gorm_error option \<times> 'v \<times> 'm DB) \<Rightarrow> 'v \<times> 'm DB
     \<Rightarrow> gorm_error option \<times> 'v \<times> 'm DB" where
  "db_Transaction s fc st =
     (if begin_err s then (Some ErrStorage, st)
      else case fc st of
             (Some e, v', tx') \<Rightarrow> (Some e, v', snd st)
           | (None, v', tx') \<Rightarrow>
               if commit_err s then (Some ErrStorage, v', snd st) else (None, v', tx'))"

section \<open>Handlers (the handlers package in database/database.go)\<close>

subsection \<open>generateTransactionID\<close>

text \<open>
  \<^verbatim>\<open>"TXN" + time.Now().Format("20060102150405") + strconv.Itoa(int(time.Now().UnixNano()%1000))\<close>.
  The two readings of the clock are the fields of \<open>clock\<close>: the first one already
  formatted, the second one as nanoseconds since the epoch. Go's \<^verbatim>\<open>%\<close> truncates
  towards zero (\<open>smod\<close>).
\<close>

record clock =
  stamp :: string
  unix_nano :: int

fun nat_digits :: "nat \<Rightarrow> string" where
  "nat_digits n =
     (if n < 10 then [''0123456789'' ! n]
      else nat_digits (n div 10) @ [''0123456789'' ! (n mod 10)])"

declare nat_digits.simps [simp del]

definition Itoa :: "int \<Rightarrow> string" where
  "Itoa i = (if i < 0 then CHR ''-'' # nat_digits (nat (- i)) else nat_digits (nat i))"

definition generateTransactionID :: "clock \<Rightarrow> string" where
  "generateTransactionID c = ''TXN'' @ stamp c @ Itoa (unix_nano c smod 1000)"

subsection \<open>contains\<close>

fun contains :: "string list \<Rightarrow> string \<Rightarrow> bool" where
  "contains [] item = False"
| "contains (s # rest) item = (if s = item then True else contains rest item)"

subsection \<open>CreateTransaction\<close>

definition validTypes :: "string list" where
  "validTypes = [''deposit'', ''withdrawal'', ''transfer'', ''payment'']"

text \<open>The \<^verbatim>\<open>switch\<close> on the transaction type: \<open>None\<close> is
  \<^verbatim>\<open>return gorm.ErrInvalidData\<close>, \<open>Some\<close> the account as the switch leaves it. The switch
  has no default case.\<close>

definition switch_type ::
  "'m::{plus,minus,ord} Account \<Rightarrow> 'm Transaction \<Rightarrow> 'm Account option" where
  "switch_type account transaction =
     (if TransactionType transaction = ''deposit'' then
        Some (account\<lparr>Balance := Balance account + Amount transaction\<rparr>)
      else if TransactionType transaction = ''withdrawal'' then
        (if Balance account < Amount transaction then None
         else Some (account\<lparr>Balance := Balance account - Amount transaction\<rparr>))
      else if TransactionType transaction = ''transfer''
            \<or> TransactionType transaction = ''payment'' then
        (if Balance account < Amount transaction then None
         else Some (account\<lparr>Balance := Balance account - Amount transaction\<rparr>))
      else Some account)"

text \<open>
  The function passed to \<^verbatim>\<open>db.Transaction\<close>. It captures the handler's variable
  \<^verbatim>\<open>transaction\<close> and assigns to it, so the variable is part of the state it works
  on. The result is the error it returns (\<open>None\<close> for \<^verbatim>\<open>nil\<close>), the variable, and the
  tables as the calls on \<^verbatim>\<open>tx\<close> left them.
\<close>

definition closure ::
  "store \<Rightarrow> clock \<Rightarrow> 'm::{plus,minus,ord} Transaction \<times> 'm DB
     \<Rightarrow> gorm_error option \<times> 'm Transaction \<times> 'm DB" where
  "closure s c st =
     (let transaction = fst st; tx = snd st in
      case tx_First s tx (AccountID transaction) of
        Inl err \<Rightarrow> (Some err, transaction, tx)
      | Inr account \<Rightarrow>
          (if Status account \<noteq> ''active'' then (Some ErrInvalidData, transaction, tx)
           else
             (let transaction = transaction\<lparr>BalanceBefore := Balance account\<rparr> in
              (case switch_type account transaction of
                 None \<Rightarrow> (Some ErrInvalidData, transaction, tx)
               | Some account \<Rightarrow>
                   (let transaction = transaction\<lparr>BalanceAfter := Balance account\<rparr>;
                        transaction = transaction\<lparr>TransactionID := generateTransactionID c\<rparr>
                    in (case tx_Save s tx account of
                          Inl err \<Rightarrow> (Some err, transaction, tx)
                        | Inr tx \<Rightarrow>
                            (case tx_Create s tx transaction of
                               Inl err \<Rightarrow> (Some err, transaction, tx)
                             | Inr (transaction, tx) \<Rightarrow> (None, transaction, tx))))))))"

text \<open>What the handler writes with \<^verbatim>\<open>c.JSON\<close>: the HTTP status with either the
  \<^verbatim>\<open>error\<close> text, or the \<^verbatim>\<open>message\<close> text and the transaction.\<close>

datatype 'm response =
  ErrorJSON nat string
| TransactionJSON nat string "'m Transaction"

text \<open>
  The handler, from the point where \<^verbatim>\<open>c.ShouldBindJSON(&transaction)\<close> has succeeded:
  \<open>transaction\<close> is the struct bound from the request body. It returns the response and
  the tables.
\<close>

definition CreateTransaction ::
  "store \<Rightarrow> clock \<Rightarrow> 'm::{zero,plus,minus,ord} DB \<Rightarrow> 'm Transaction
     \<Rightarrow> 'm response \<times> 'm DB" where
  "CreateTransaction s c db transaction =
     (if \<not> contains validTypes (TransactionType transaction) then
        (ErrorJSON 400 ''Invalid transaction type'', db)
      else if Amount transaction \<le> 0 then
        (ErrorJSON 400 ''Transaction amount must be positive'', db)
      else
        case db_Transaction s (closure s c) (transaction, db) of
          (Some err, transaction, db') \<Rightarrow>
            if err = ErrRecordNotFound then
              (ErrorJSON 404 ''Account not found'', db')
            else if err = ErrInvalidData then
              (ErrorJSON 400 ''Insufficient balance or invalid account status'', db')
            else
              (ErrorJSON 500 ''Failed to process transaction'', db')
        | (None, transaction, db') \<Rightarrow>
            (TransactionJSON 201 ''Transaction processed successfully'' transaction, db'))"

section \<open>Notions of the specification\<close>

text \<open>
  The effect table of the specification (its section 4.1), written from its words:
  a deposit adds the amount, a withdrawal, transfer or payment subtracts it, and no other
  type has an effect. It is compared below with what \<open>switch_type\<close> computes.
\<close>

definition applyEffect :: "'m::{plus,minus} \<Rightarrow> string \<Rightarrow> 'm \<Rightarrow> 'm option" where
  "applyEffect balance ty amount =
     (if ty = ''deposit'' then Some (balance + amount)
      else if ty = ''withdrawal'' \<or> ty = ''transfer'' \<or> ty = ''payment''
      then Some (balance - amount)
      else None)"

text \<open>The row a successful request leaves in the transaction table, given the account \<open>a\<close>
  as fetched and the new balance \<open>b\<close>: the request with the four fields that the handler
  and the store assign.\<close>

definition committed ::
  "store \<Rightarrow> clock \<Rightarrow> 'm Account \<Rightarrow> 'm \<Rightarrow> 'm Transaction \<Rightarrow> 'm Transaction" where
  "committed s c a b t =
     t\<lparr>BalanceBefore := Balance a, BalanceAfter := b,
       TransactionID := generateTransactionID c,
       TxID := (if TxID t = 0 then next_id s else TxID t)\<rparr>"






section \<open>Example values\<close>

text \<open>Amounts in the examples are integers, read as minor units: 10000 is 100.00.\<close>

definition ex_store :: store where
  "ex_store = \<lparr>begin_err = False, first_err = False, save_err = False, create_err = False,
     commit_err = False, next_id = 1\<rparr>"

definition ex_clock :: clock where
  "ex_clock = \<lparr>stamp = ''20240102030405'', unix_nano = 1704164645123456789\<rparr>"

definition ex_checking :: "int Account" where
  "ex_checking = \<lparr>ID = 1, AccountNumber = ''ACC1'', CustomerID = 1, AccountType = ''checking'',
     Balance = 10000, Currency = ''USD'', Status = ''active''\<rparr>"

definition ex_dormant :: "int Account" where
  "ex_dormant = \<lparr>ID = 2, AccountNumber = ''ACC2'', CustomerID = 1, AccountType = ''savings'',
     Balance = 0, Currency = ''USD'', Status = ''inactive''\<rparr>"

definition ex_db :: "int DB" where
  "ex_db = \<lparr>accounts = [ex_checking, ex_dormant], transactions = []\<rparr>"

text \<open>A request body for account \<open>k\<close> in which the client also filled in
  \<^verbatim>\<open>transaction_id\<close>, \<^verbatim>\<open>balance_before\<close> and \<^verbatim>\<open>balance_after\<close>.\<close>

definition ex_request :: "uint \<Rightarrow> string \<Rightarrow> int \<Rightarrow> int Transaction" where
  "ex_request k ty amount =
     \<lparr>TxID = 0, TransactionID = ''client-chosen'', AccountID = k, TransactionType = ty,
      Amount = amount, Description = ''memo'', Reference = ''REF-1'', BalanceBefore = 7,
      BalanceAfter = 9\<rparr>"


section \<open>Basic facts\<close>

lemmas ex_defs =
  ex_store_def ex_clock_def ex_checking_def ex_dormant_def ex_db_def ex_request_def

lemma contains_iff: "contains xs item \<longleftrightarrow> item \<in> set xs"
  by (induction xs) auto

lemma contains_validTypes:
  "contains validTypes ty \<longleftrightarrow> ty \<in> {''deposit'', ''withdrawal'', ''transfer'', ''payment''}"
  by (simp add: contains_iff validTypes_def)

lemma ex_generated: "generateTransactionID ex_clock = ''TXN20240102030405789''"
  by (simp add: generateTransactionID_def ex_clock_def Itoa_def nat_digits.simps
      smod_int_alt_def)

lemma find_SomeD: "find P xs = Some x \<Longrightarrow> P x \<and> x \<in> set xs"
  by (induction xs) (auto split: if_splits)

lemma find_ID: "find (\<lambda>r. ID r = k) rows = Some a \<Longrightarrow> ID a = k"
  using find_SomeD [of "\<lambda>r. ID r = k" rows a] by simp




subsection \<open>The switch\<close>

lemma switch_type_only_Balance:
  "switch_type a t = Some a' \<Longrightarrow> a' = a\<lparr>Balance := Balance a'\<rparr>"
  by (auto simp: switch_type_def split: if_splits)

lemma switch_type_ID: "switch_type a t = Some a' \<Longrightarrow> ID a' = ID a"
  by (auto simp: switch_type_def split: if_splits)

lemma switch_type_applyEffect:
  "contains validTypes (TransactionType t) \<Longrightarrow> switch_type a t = Some a' \<Longrightarrow>
     applyEffect (Balance a) (TransactionType t) (Amount t) = Some (Balance a')"
  by (auto simp: switch_type_def applyEffect_def contains_validTypes split: if_splits)

subsection \<open>The two ways a request ends\<close>

text \<open>
  Either the handler answers with an error and returns the tables as it got them, or no
  call of the store failed, the request passed both validations, the account was found
  active, the switch produced a new balance, and the tables hold the saved account and
  one more transaction row.
\<close>

lemma CreateTransaction_cases:
  fixes db :: "'m::{zero,plus,minus,ord} DB"
  shows "(\<exists>code msg. CreateTransaction s c db t = (ErrorJSON code msg, db)) \<or>
    (\<exists>a a'. \<not> begin_err s \<and> \<not> first_err s \<and> \<not> save_err s \<and> \<not> create_err s
       \<and> \<not> commit_err s
       \<and> contains validTypes (TransactionType t) \<and> \<not> Amount t \<le> 0
       \<and> find (\<lambda>r. ID r = AccountID t) (accounts db) = Some a
       \<and> Status a = ''active''
       \<and> switch_type a (t\<lparr>BalanceBefore := Balance a\<rparr>) = Some a'
       \<and> CreateTransaction s c db t =
           (TransactionJSON 201 ''Transaction processed successfully''
              (committed s c a (Balance a') t),
            db\<lparr>accounts := map (\<lambda>r. if ID r = ID a' then a' else r) (accounts db),
               transactions := transactions db @ [committed s c a (Balance a') t]\<rparr>))"
  by (auto simp: CreateTransaction_def db_Transaction_def closure_def tx_First_def tx_Save_def
      tx_Create_def committed_def Let_def
      split: option.splits sum.splits gorm_error.splits prod.splits)

lemma CreateTransaction_success:
  fixes db :: "'m::{zero,plus,minus,ord} DB"
  assumes "\<not> begin_err s" "\<not> first_err s" "\<not> save_err s" "\<not> create_err s" "\<not> commit_err s"
    and "contains validTypes (TransactionType t)" "\<not> Amount t \<le> 0"
    and "find (\<lambda>r. ID r = AccountID t) (accounts db) = Some a"
    and "Status a = ''active''"
    and "switch_type a (t\<lparr>BalanceBefore := Balance a\<rparr>) = Some a'"
  shows "CreateTransaction s c db t =
           (TransactionJSON 201 ''Transaction processed successfully''
              (committed s c a (Balance a') t),
            db\<lparr>accounts := map (\<lambda>r. if ID r = ID a' then a' else r) (accounts db),
               transactions := transactions db @ [committed s c a (Balance a') t]\<rparr>)"
  using assms
  by (simp add: CreateTransaction_def db_Transaction_def closure_def tx_First_def tx_Save_def
      tx_Create_def committed_def Let_def)



text \<open>
  The rollback is not idle. When \<^verbatim>\<open>Create\<close> fails, the function passed to
  \<^verbatim>\<open>db.Transaction\<close> has already saved the new balance on its handle; the handler still
  returns the tables with the old one.
\<close>

lemma closure_leaves_partial_state:
  "closure (ex_store\<lparr>create_err := True\<rparr>) ex_clock (ex_request 1 ''deposit'' 5000, ex_db)
     = (Some ErrStorage,
        (ex_request 1 ''deposit'' 5000)\<lparr>BalanceBefore := 10000, BalanceAfter := 15000,
          TransactionID := ''TXN20240102030405789''\<rparr>,
        ex_db\<lparr>accounts := [ex_checking\<lparr>Balance := 15000\<rparr>, ex_dormant]\<rparr>)"
  by (simp add: closure_def tx_First_def tx_Save_def tx_Create_def switch_type_def
      ex_generated ex_store_def ex_checking_def ex_dormant_def ex_db_def ex_request_def
      Let_def)

section \<open>C1: a funded request on an active account succeeds\<close>



section \<open>C2: the balance and the record are written together or not at all\<close>

text \<open>
  Claim C2. For every request, every state of the tables and every behaviour of the store:
  when the handler answers with an error the tables are exactly what they were; when it
  answers with a transaction, no call of the store failed, the table of transactions has
  that one record more, and the row of the account holds the record's \<open>BalanceAfter\<close>.
  So a failure of \<^verbatim>\<open>Begin\<close>, \<^verbatim>\<open>First\<close>, \<^verbatim>\<open>Save\<close>, \<^verbatim>\<open>Create\<close> or \<^verbatim>\<open>Commit\<close>
  leaves the tables unchanged. Requests are taken one at a time: what another connection
  sees while the unit of work runs is not part of this statement.
\<close>

theorem C2_atomic_unit:
  fixes db :: "'m::{zero,plus,minus,ord} DB"
  shows "(case CreateTransaction s c db t of
            (ErrorJSON code msg, db') \<Rightarrow> db' = db
          | (TransactionJSON code msg rec, db') \<Rightarrow>
              \<not> begin_err s \<and> \<not> first_err s \<and> \<not> save_err s \<and> \<not> create_err s
              \<and> \<not> commit_err s
              \<and> transactions db' = transactions db @ [rec]
              \<and> (\<exists>a. find (\<lambda>r. ID r = AccountID t) (accounts db) = Some a
                    \<and> accounts db' =
                        map (\<lambda>r. if ID r = AccountID t then a\<lparr>Balance := BalanceAfter rec\<rparr>
                                 else r) (accounts db)))
       \<and> (begin_err s \<or> first_err s \<or> save_err s \<or> create_err s \<or> commit_err s \<longrightarrow>
            snd (CreateTransaction s c db t) = db)"
proof -
  consider (abort) code msg where "CreateTransaction s c db t = (ErrorJSON code msg, db)"
    | (commit) a a' where
        "\<not> begin_err s" "\<not> first_err s" "\<not> save_err s" "\<not> create_err s" "\<not> commit_err s"
        "find (\<lambda>r. ID r = AccountID t) (accounts db) = Some a"
        "switch_type a (t\<lparr>BalanceBefore := Balance a\<rparr>) = Some a'"
        "CreateTransaction s c db t =
           (TransactionJSON 201 ''Transaction processed successfully''
              (committed s c a (Balance a') t),
            db\<lparr>accounts := map (\<lambda>r. if ID r = ID a' then a' else r) (accounts db),
               transactions := transactions db @ [committed s c a (Balance a') t]\<rparr>)"
    using CreateTransaction_cases [of s c db t] by blast
  then show ?thesis
  proof cases
    case abort
    then show ?thesis by simp
  next
    case commit
    have "ID a' = AccountID t"
      using switch_type_ID [OF commit(7)] find_ID [OF commit(6)] by simp
    moreover have "a' = a\<lparr>Balance := Balance a'\<rparr>"
      using commit(7) by (rule switch_type_only_Balance)
    ultimately show ?thesis
      using commit by (simp add: committed_def)
  qed
qed

text \<open>A deposit whose \<^verbatim>\<open>Create\<close> fails, after \<^verbatim>\<open>Save\<close> has succeeded on the handle
  (\<open>closure_leaves_partial_state\<close>): the answer is 500 and the balance is still 100.00.\<close>

theorem C2_witness:
  "CreateTransaction (ex_store\<lparr>create_err := True\<rparr>) ex_clock ex_db
     (ex_request 1 ''deposit'' 5000)
     = (ErrorJSON 500 ''Failed to process transaction'', ex_db)
   \<and> create_err (ex_store\<lparr>create_err := True\<rparr>)
   \<and> snd (CreateTransaction (ex_store\<lparr>create_err := True\<rparr>) ex_clock ex_db
        (ex_request 1 ''deposit'' 5000)) = ex_db"
  using C2_atomic_unit
    [where s = "ex_store\<lparr>create_err := True\<rparr>" and c = ex_clock and db = ex_db
       and t = "ex_request 1 ''deposit'' 5000"]
  by (simp add: CreateTransaction_def db_Transaction_def closure_def tx_First_def tx_Save_def
      tx_Create_def switch_type_def validTypes_def ex_defs Let_def)

section \<open>C3: the ledger invariant\<close>










section \<open>C4: insufficient funds\<close>

text \<open>
  Claim C4. Let the account of the request exist and be active, the type be
  \<^verbatim>\<open>withdrawal\<close>, \<^verbatim>\<open>transfer\<close> or \<^verbatim>\<open>payment\<close>, the amount positive, and let the store
  begin the unit of work and fetch the account. Then the handler answers with the
  insufficient-funds error (status 400, \<^verbatim>\<open>Insufficient balance or invalid account status\<close>)
  exactly when the amount is greater than the balance; in that case the tables are
  unchanged, so the balance is what it was and no record exists. When the amount equals
  the balance and the writes do not fail, the request succeeds and leaves the balance 0.
  Amounts are taken in a preordered group (\<open>a - a = 0\<close> is the only law of the group used).
\<close>

theorem C4_insufficient_funds:
  fixes db :: "'m::{preorder,group_add} DB"
  assumes "\<not> begin_err s" "\<not> first_err s"
    and found: "find (\<lambda>r. ID r = AccountID t) (accounts db) = Some a"
    and active: "Status a = ''active''"
    and ty: "TransactionType t \<in> {''withdrawal'', ''transfer'', ''payment''}"
    and pos: "0 < Amount t"
  shows "(fst (CreateTransaction s c db t) =
            ErrorJSON 400 ''Insufficient balance or invalid account status''
          \<longleftrightarrow> Amount t > Balance a)
       \<and> (Amount t > Balance a \<longrightarrow> snd (CreateTransaction s c db t) = db)
       \<and> (Amount t = Balance a \<and> \<not> save_err s \<and> \<not> create_err s \<and> \<not> commit_err s \<longrightarrow>
            (\<exists>rec. CreateTransaction s c db t =
               (TransactionJSON 201 ''Transaction processed successfully'' rec,
                db\<lparr>accounts := map (\<lambda>r. if ID r = AccountID t then a\<lparr>Balance := 0\<rparr> else r)
                                   (accounts db),
                   transactions := transactions db @ [rec]\<rparr>)
             \<and> BalanceBefore rec = Balance a \<and> BalanceAfter rec = 0))"
proof -
  have amount: "\<not> Amount t \<le> 0"
    using pos by (simp add: less_le_not_le)
  have valid: "contains validTypes (TransactionType t)"
    using ty by (auto simp: contains_validTypes)
  have key: "ID a = AccountID t"
    using found by (rule find_ID)
  have short: "CreateTransaction s c db t =
      (ErrorJSON 400 ''Insufficient balance or invalid account status'', db)"
    if "Balance a < Amount t"
    using that assms(1,2) found active ty amount valid
    by (auto simp: CreateTransaction_def db_Transaction_def closure_def tx_First_def
        switch_type_def Let_def)
  have enough: "fst (CreateTransaction s c db t) \<noteq>
      ErrorJSON 400 ''Insufficient balance or invalid account status''"
    if "\<not> Balance a < Amount t"
    using that assms(1,2) found active ty amount valid
    by (auto simp: CreateTransaction_def db_Transaction_def closure_def tx_First_def
        tx_Save_def tx_Create_def switch_type_def Let_def)
  have exact: "\<exists>rec. CreateTransaction s c db t =
               (TransactionJSON 201 ''Transaction processed successfully'' rec,
                db\<lparr>accounts := map (\<lambda>r. if ID r = AccountID t then a\<lparr>Balance := 0\<rparr> else r)
                                   (accounts db),
                   transactions := transactions db @ [rec]\<rparr>)
             \<and> BalanceBefore rec = Balance a \<and> BalanceAfter rec = 0"
    if eq: "Amount t = Balance a" and w: "\<not> save_err s" "\<not> create_err s" "\<not> commit_err s"
  proof -
    have sw: "switch_type a (t\<lparr>BalanceBefore := Balance a\<rparr>) = Some (a\<lparr>Balance := 0\<rparr>)"
      using ty eq by (auto simp: switch_type_def)
    show ?thesis
      using CreateTransaction_success [OF assms(1,2) w valid amount found active sw] key
      by (intro exI [of _ "committed s c a 0 t"]) (simp add: committed_def)
  qed
  show ?thesis
    using short enough exact by auto
qed

text \<open>On the account with 100.00: a withdrawal of 200.00 is refused and changes nothing;
  a withdrawal of exactly 100.00 succeeds and leaves 0.\<close>

theorem C4_witness:
  "find (\<lambda>r. ID r = 1) (accounts ex_db) = Some ex_checking
   \<and> Status ex_checking = ''active''
   \<and> Amount (ex_request 1 ''withdrawal'' 20000) > Balance ex_checking
   \<and> CreateTransaction ex_store ex_clock ex_db (ex_request 1 ''withdrawal'' 20000)
       = (ErrorJSON 400 ''Insufficient balance or invalid account status'', ex_db)
   \<and> Amount (ex_request 1 ''withdrawal'' 10000) = Balance ex_checking
   \<and> (\<exists>rec. CreateTransaction ex_store ex_clock ex_db (ex_request 1 ''withdrawal'' 10000) =
          (TransactionJSON 201 ''Transaction processed successfully'' rec,
           ex_db\<lparr>accounts := [ex_checking\<lparr>Balance := 0\<rparr>, ex_dormant],
                 transactions := [rec]\<rparr>)
        \<and> BalanceBefore rec = 10000 \<and> BalanceAfter rec = 0)"
proof -
  have found: "find (\<lambda>r. ID r = 1) (accounts ex_db) = Some ex_checking"
    by (simp add: ex_db_def ex_checking_def)
  have active: "Status ex_checking = ''active''"
    by (simp add: ex_checking_def)
  have more: "Amount (ex_request 1 ''withdrawal'' 20000) > Balance ex_checking"
    and same: "Amount (ex_request 1 ''withdrawal'' 10000) = Balance ex_checking"
    by (simp_all add: ex_request_def ex_checking_def)
  have refused: "CreateTransaction ex_store ex_clock ex_db (ex_request 1 ''withdrawal'' 20000)
       = (ErrorJSON 400 ''Insufficient balance or invalid account status'', ex_db)"
    using C4_insufficient_funds
      [where s = ex_store and c = ex_clock and db = ex_db and a = ex_checking
         and t = "ex_request 1 ''withdrawal'' 20000"]
      found active more
    by (simp add: ex_store_def ex_request_def prod_eq_iff)
  have emptied: "\<exists>rec. CreateTransaction ex_store ex_clock ex_db
          (ex_request 1 ''withdrawal'' 10000) =
          (TransactionJSON 201 ''Transaction processed successfully'' rec,
           ex_db\<lparr>accounts := [ex_checking\<lparr>Balance := 0\<rparr>, ex_dormant],
                 transactions := [rec]\<rparr>)
        \<and> BalanceBefore rec = 10000 \<and> BalanceAfter rec = 0"
    using C4_insufficient_funds
      [where s = ex_store and c = ex_clock and db = ex_db and a = ex_checking
         and t = "ex_request 1 ''withdrawal'' 10000"]
      found active same
    by (simp add: ex_store_def ex_request_def) (simp add: ex_db_def ex_checking_def ex_dormant_def)
  show ?thesis
    using found active more same refused emptied by blast
qed

section \<open>C5: an account that is not active\<close>




section \<open>C6: validation comes before the store\<close>

text \<open>
  Claim C6. A request whose type is not exactly one of \<^verbatim>\<open>deposit\<close>, \<^verbatim>\<open>withdrawal\<close>,
  \<^verbatim>\<open>transfer\<close>, \<^verbatim>\<open>payment\<close> is answered with status 400 and \<^verbatim>\<open>Invalid transaction type\<close>,
  whatever its amount. A request with a valid type and an amount \<open>\<le> 0\<close> is answered with
  status 400 and \<^verbatim>\<open>Transaction amount must be positive\<close>. In both cases the tables are
  returned as they were, and the answer is the same for every state of the tables, every
  behaviour of the store (a store whose every call fails included) and every clock: the
  store is not consulted. No law of arithmetic is used.
\<close>

theorem C6_validation_before_storage:
  fixes db db' :: "'m::{zero,plus,minus,ord} DB"
  shows "(TransactionType t \<notin> {''deposit'', ''withdrawal'', ''transfer'', ''payment''} \<longrightarrow>
            CreateTransaction s c db t = (ErrorJSON 400 ''Invalid transaction type'', db))
       \<and> (TransactionType t \<in> {''deposit'', ''withdrawal'', ''transfer'', ''payment''}
            \<and> Amount t \<le> 0 \<longrightarrow>
            CreateTransaction s c db t =
              (ErrorJSON 400 ''Transaction amount must be positive'', db))
       \<and> (TransactionType t \<notin> {''deposit'', ''withdrawal'', ''transfer'', ''payment''}
            \<or> Amount t \<le> 0 \<longrightarrow>
            fst (CreateTransaction s c db t) = fst (CreateTransaction s' c' db' t))"
  by (simp add: CreateTransaction_def contains_validTypes)

text \<open>\<^verbatim>\<open>Deposit\<close> with a capital letter and a negative amount is an invalid type, not an
  invalid amount; \<^verbatim>\<open>deposit\<close> with amount 0 is an invalid amount. The store of this example
  cannot even begin a unit of work.\<close>

theorem C6_witness:
  "TransactionType (ex_request 1 ''Deposit'' (- 5))
     \<notin> {''deposit'', ''withdrawal'', ''transfer'', ''payment''}
   \<and> Amount (ex_request 1 ''Deposit'' (- 5)) \<le> 0
   \<and> CreateTransaction (ex_store\<lparr>begin_err := True\<rparr>) ex_clock ex_db
        (ex_request 1 ''Deposit'' (- 5))
       = (ErrorJSON 400 ''Invalid transaction type'', ex_db)
   \<and> Amount (ex_request 1 ''deposit'' 0) \<le> 0
   \<and> CreateTransaction (ex_store\<lparr>begin_err := True\<rparr>) ex_clock ex_db
        (ex_request 1 ''deposit'' 0)
       = (ErrorJSON 400 ''Transaction amount must be positive'', ex_db)"
  using C6_validation_before_storage
      [where s = "ex_store\<lparr>begin_err := True\<rparr>" and c = ex_clock and db = ex_db
         and t = "ex_request 1 ''Deposit'' (- 5)"]
    C6_validation_before_storage
      [where s = "ex_store\<lparr>begin_err := True\<rparr>" and c = ex_clock and db = ex_db
         and t = "ex_request 1 ''deposit'' 0"]
  by (simp add: ex_request_def)

section \<open>C7: one account row, at most one new record\<close>



section \<open>C10: fields the client cannot set\<close>

text \<open>
  Claim C10. Replacing \<^verbatim>\<open>transaction_id\<close>, \<^verbatim>\<open>balance_before\<close> and \<^verbatim>\<open>balance_after\<close> in
  the request body by any other values changes neither the answer nor the tables.
  In every record the handler answers with (which is the record it persisted),
  \<open>TransactionID\<close> is the identifier generated from the clock, \<open>BalanceBefore\<close> is the
  stored balance of the account, and \<open>BalanceAfter\<close> is the effect of type and amount on
  that balance. No law of arithmetic is used.
\<close>

theorem C10_client_fields_ignored:
  fixes db :: "'m::{zero,plus,minus,ord} DB"
  shows "CreateTransaction s c db
            (t\<lparr>TransactionID := tid, BalanceBefore := bb, BalanceAfter := ba\<rparr>)
           = CreateTransaction s c db t
       \<and> (\<forall>code msg rec db'.
            CreateTransaction s c db t = (TransactionJSON code msg rec, db') \<longrightarrow>
              TransactionID rec = generateTransactionID c
            \<and> (\<exists>a. find (\<lambda>r. ID r = AccountID t) (accounts db) = Some a
                  \<and> BalanceBefore rec = Balance a
                  \<and> applyEffect (Balance a) (TransactionType t) (Amount t)
                      = Some (BalanceAfter rec)))"
proof -
  have same: "CreateTransaction s c db
            (t\<lparr>TransactionID := tid, BalanceBefore := bb, BalanceAfter := ba\<rparr>)
           = CreateTransaction s c db t"
    by (auto simp: CreateTransaction_def db_Transaction_def closure_def tx_First_def
        tx_Save_def tx_Create_def switch_type_def Let_def
        split: option.splits sum.splits gorm_error.splits prod.splits)
  have computed: "TransactionID rec = generateTransactionID c
            \<and> (\<exists>a. find (\<lambda>r. ID r = AccountID t) (accounts db) = Some a
                  \<and> BalanceBefore rec = Balance a
                  \<and> applyEffect (Balance a) (TransactionType t) (Amount t)
                      = Some (BalanceAfter rec))"
    if "CreateTransaction s c db t = (TransactionJSON code msg rec, db')" for code msg rec db'
    using CreateTransaction_cases [of s c db t] that
    by (auto simp: committed_def dest: switch_type_applyEffect [rotated])
  show ?thesis using same computed by blast
qed

text \<open>A deposit whose body carries a forged identifier and forged balances is processed
  like the same deposit without them; the record holds the generated identifier and the
  balances 100.00 and 150.00.\<close>

theorem C10_witness:
  "CreateTransaction ex_store ex_clock ex_db
     ((ex_request 1 ''deposit'' 5000)\<lparr>TransactionID := ''forged'', BalanceBefore := 1,
        BalanceAfter := 99999999\<rparr>)
     = CreateTransaction ex_store ex_clock ex_db (ex_request 1 ''deposit'' 5000)
   \<and> (\<exists>rec db'. CreateTransaction ex_store ex_clock ex_db (ex_request 1 ''deposit'' 5000)
          = (TransactionJSON 201 ''Transaction processed successfully'' rec, db')
        \<and> TransactionID rec = ''TXN20240102030405789''
        \<and> BalanceBefore rec = 10000 \<and> BalanceAfter rec = 15000)"
proof -
  have answer: "CreateTransaction ex_store ex_clock ex_db (ex_request 1 ''deposit'' 5000)
      = (TransactionJSON 201 ''Transaction processed successfully''
           ((ex_request 1 ''deposit'' 5000)\<lparr>TxID := 1,
              TransactionID := ''TXN20240102030405789'',
              BalanceBefore := 10000, BalanceAfter := 15000\<rparr>),
         ex_db\<lparr>accounts := [ex_checking\<lparr>Balance := 15000\<rparr>, ex_dormant],
               transactions := [(ex_request 1 ''deposit'' 5000)\<lparr>TxID := 1,
                 TransactionID := ''TXN20240102030405789'',
                 BalanceBefore := 10000, BalanceAfter := 15000\<rparr>]\<rparr>)"
    by (simp add: CreateTransaction_def db_Transaction_def closure_def tx_First_def
        tx_Save_def tx_Create_def switch_type_def validTypes_def ex_generated ex_store_def
        ex_checking_def ex_dormant_def ex_db_def ex_request_def Let_def)
  note C10_client_fields_ignored
    [where s = ex_store and c = ex_clock and db = ex_db
       and t = "ex_request 1 ''deposit'' 5000" and tid = "''forged''" and bb = 1
       and ba = 99999999]
  then show ?thesis
    using answer by simp
qed

end
